theory Spec2Isabelle
  imports Complex_Main "HOL-Library.Sublist" "HOL-Library.Multiset"
begin

section \<open>The CORD-19 dashboard (streamlit_app.py)\<close>

text \<open>
  The program is one Streamlit script: \<open>load_data\<close> reads and cleans a CSV file with
  pandas, and \<open>main\<close> filters the table by the sidebar selections and computes the
  metrics, series and search results that the page shows.

  A pandas DataFrame is modelled as the list of its rows in index order, a column as the
  list of its cells, and a cell that may be NaN/NaT as an \<open>option\<close>. A cell of a text
  column that is not empty is a Python string, and \<open>has_full_text\<close> holds booleans.
  Python exceptions are values of \<open>py_error\<close>.
\<close>

subsection \<open>Data model\<close>

datatype py_error = FileNotFoundError | AttributeError | IndexError | ValueError | ReError

record timestamp =
  year :: int
  month :: int
  day :: int

text \<open>A row of the CSV file as \<open>pd.read_csv\<close> returns it (an empty field is NaN).\<close>

record raw_paper =
  raw_title :: "string option"
  raw_authors :: "string option"
  raw_journal :: "string option"
  raw_source_x :: "string option"
  raw_publish_time :: "string option"
  raw_abstract :: "string option"
  raw_doi :: "string option"
  raw_has_full_text :: bool

text \<open>A row of the cleaned table that \<open>load_data\<close> returns.\<close>

record paper =
  title :: "string option"
  authors :: "string option"
  journal :: string
  source_x :: "string option"
  publish_time :: "timestamp option"
  publish_year :: "int option"
  publish_month :: "int option"
  abstract :: string
  doi :: string
  has_full_text :: bool
  author_count :: "nat option"
  abstract_length :: nat

subsection \<open>pandas column operations\<close>

text \<open>\<open>Series.dropna()\<close>: the non-null cells, in order.\<close>

fun dropna :: "'a option list \<Rightarrow> 'a list" where
  "dropna [] = []"
| "dropna (None # cs) = dropna cs"
| "dropna (Some v # cs) = v # dropna cs"

text \<open>\<open>Series.unique()\<close>: the distinct values in order of first appearance.\<close>

fun unique :: "'a list \<Rightarrow> 'a list" where
  "unique [] = []"
| "unique (x # xs) = x # unique (filter (\<lambda>y. y \<noteq> x) xs)"

text \<open>\<open>Series.fillna(v)\<close> on one cell.\<close>

fun fillna :: "'a \<Rightarrow> 'a option \<Rightarrow> 'a" where
  "fillna v None = v"
| "fillna v (Some x) = x"

text \<open>\<open>Series.isin(values)\<close> on one cell: membership; NaN is a member only when the
  values contain NaN.\<close>

definition isin :: "'a \<Rightarrow> 'a list \<Rightarrow> bool" where
  "isin c vals = (c \<in> set vals)"

subsection \<open>load-data (lines 44-61)\<close>

text \<open>
  \<open>pd.to_datetime(..., errors='coerce')\<close> is pandas' date parser; it is a parameter
  \<open>parse\<close> of the model, \<open>None\<close> standing for a text it cannot parse (NaT).
  \<open>len(s.split(','))\<close> is one more than the number of commas of \<open>s\<close>.
\<close>

definition to_datetime :: "(string \<Rightarrow> timestamp option) \<Rightarrow> string option \<Rightarrow> timestamp option" where
  "to_datetime parse c = (case c of None \<Rightarrow> None | Some s \<Rightarrow> parse s)"

definition split_len :: "string \<Rightarrow> nat" where
  "split_len s = Suc (length (filter (\<lambda>c. c = CHR '','') s))"

definition clean :: "(string \<Rightarrow> timestamp option) \<Rightarrow> raw_paper \<Rightarrow> paper" where
  "clean parse r =
     (let t = to_datetime parse (raw_publish_time r);
          a = fillna ''No abstract available'' (raw_abstract r)
      in \<lparr> title = raw_title r,
           authors = raw_authors r,
           journal = fillna ''Unknown Journal'' (raw_journal r),
           source_x = raw_source_x r,
           publish_time = t,
           publish_year = map_option year t,
           publish_month = map_option month t,
           abstract = a,
           doi = fillna ''No DOI available'' (raw_doi r),
           has_full_text = raw_has_full_text r,
           author_count = map_option split_len (raw_authors r),
           abstract_length = length a \<rparr>)"

text \<open>
  The \<open>.str\<close> accessor of a column (line 56) needs a column of strings: a column read
  from a file with rows in which every cell is empty has dtype float64, and the accessor
  raises AttributeError on it. A column without cells, and one with a string in it, has
  dtype object. After \<open>fillna\<close> with a string the abstract column holds strings, so line
  57 does not raise.
\<close>

definition has_str_accessor :: "'a option list \<Rightarrow> bool" where
  "has_str_accessor col = (col = [] \<or> list_ex (\<lambda>c. c \<noteq> None) col)"

text \<open>
  The state the script acts on: the messages shown with \<open>st.error\<close> and the number of
  times the file was read. The file is \<open>None\<close> when it does not exist, so that
  \<open>pd.read_csv\<close> raises FileNotFoundError. The model is one run of the function body:
  the cache of \<open>st.cache_data\<close>, which spares later runs the call, is left out.
\<close>

record app_state =
  shown_errors :: "string list"
  csv_reads :: nat

definition read_csv :: "raw_paper list option \<Rightarrow> app_state \<Rightarrow> (py_error + raw_paper list) \<times> app_state" where
  "read_csv file s =
     (case file of
        None \<Rightarrow> (Inl FileNotFoundError, s\<lparr>csv_reads := Suc (csv_reads s)\<rparr>)
      | Some rows \<Rightarrow> (Inr rows, s\<lparr>csv_reads := Suc (csv_reads s)\<rparr>))"

definition not_found_message :: string where
  "not_found_message =
     ''Dataset file 'cord19_metadata.csv' not found. Please make sure the file exists.''"

text \<open>
  \<open>load_data\<close> returns the cleaned table, or \<open>None\<close> after showing the message when
  \<open>read_csv\<close> raised FileNotFoundError, the one exception that it catches; any other
  exception leaves the function (\<open>Inl\<close>).
\<close>

definition load_data ::
  "(string \<Rightarrow> timestamp option) \<Rightarrow> raw_paper list option \<Rightarrow> app_state
     \<Rightarrow> (py_error + paper list option) \<times> app_state" where
  "load_data parse file s =
     (case read_csv file s of
        (Inr rows, s') \<Rightarrow>
          (if has_str_accessor (map raw_authors rows)
           then (Inr (Some (map (clean parse) rows)), s')
           else (Inl AttributeError, s'))
      | (Inl e, s') \<Rightarrow>
          (if e = FileNotFoundError
           then (Inr None, s'\<lparr>shown_errors := shown_errors s' @ [not_found_message]\<rparr>)
           else (Inl e, s')))"

subsection \<open>Sidebar and filters (lines 80-111)\<close>

text \<open>\<open>sorted(df['publish_year'].dropna().unique())\<close>: the options, and the default,
  of the year selection.\<close>

definition available_years :: "paper list \<Rightarrow> int list" where
  "available_years df = sort (unique (dropna (map publish_year df)))"

text \<open>Line 97, \<open>df['source_x'].unique()\<close>: the options, and the default, of the
  source selection.\<close>

definition sources :: "paper list \<Rightarrow> string option list" where
  "sources df = unique (map source_x df)"

text \<open>
  Lines 105-111. A Python list is truthy when it is not empty; each non-empty selection
  keeps the rows whose cell is in it.
\<close>

definition apply_filters ::
  "paper list \<Rightarrow> int list \<Rightarrow> string list \<Rightarrow> string option list \<Rightarrow> paper list" where
  "apply_filters df selected_years selected_journals selected_sources =
     (let f1 = (if selected_years = [] then df
                else filter (\<lambda>r. isin (publish_year r) (map Some selected_years)) df);
          f2 = (if selected_journals = [] then f1
                else filter (\<lambda>r. isin (journal r) selected_journals) f1);
          f3 = (if selected_sources = [] then f2
                else filter (\<lambda>r. isin (source_x r) selected_sources) f2)
      in f3)"

subsection \<open>Overview metrics (lines 142-147 and 164-188)\<close>

text \<open>
  \<open>Series.sum()\<close> and \<open>len\<close> are counts. A numpy integer divided by zero does not raise:
  the result is nan for 0/0 and inf otherwise. Finite floating-point values are modelled
  by the rationals they approximate.
\<close>

datatype npfloat = Fin rat | PosInf | NaN

definition np_true_divide :: "nat \<Rightarrow> nat \<Rightarrow> npfloat" where
  "np_true_divide a b =
     (if b = 0 then (if a = 0 then NaN else PosInf) else Fin (of_nat a / of_nat b))"

fun times100 :: "npfloat \<Rightarrow> npfloat" where
  "times100 (Fin x) = Fin (x * 100)"
| "times100 PosInf = PosInf"
| "times100 NaN = NaN"

text \<open>Line 143: \<open>(filtered_df['has_full_text'].sum() / len(filtered_df)) * 100\<close>, for a
  table with rows, whose \<open>has_full_text\<close> column is boolean and whose sum is a numpy
  integer (on a table without rows the column has dtype object, the sum is a Python
  integer and the division raises ZeroDivisionError).\<close>

definition full_text_pct :: "paper list \<Rightarrow> npfloat" where
  "full_text_pct filtered_df =
     times100 (np_true_divide (length (filter has_full_text filtered_df)) (length filtered_df))"

text \<open>Line 187: the share of rows with an abstract,
  \<open>... if not filtered_df.empty else 0\<close>.\<close>

definition data_quality :: "paper list \<Rightarrow> npfloat" where
  "data_quality filtered_df =
     (if filtered_df \<noteq> []
      then times100 (np_true_divide
             (length (filter (\<lambda>r. abstract r \<noteq> ''No abstract available'') filtered_df))
             (length filtered_df))
      else Fin 0)"

text \<open>
  \<open>Series.mode()\<close>: the non-null values that occur most often, sorted ascending; it is
  empty when every cell is null. \<open>.iloc[0]\<close> raises IndexError on an empty Series.
\<close>

definition series_mode :: "'a::linorder option list \<Rightarrow> 'a list" where
  "series_mode col =
     (let vals = dropna col;
          top = foldr max (map (count_list vals) vals) 0
      in sort (filter (\<lambda>v. count_list vals v = top) (unique vals)))"

definition iloc0 :: "'a list \<Rightarrow> py_error + 'a" where
  "iloc0 xs = (case xs of [] \<Rightarrow> Inl IndexError | x # _ \<Rightarrow> Inr x)"

text \<open>What an insight line shows: a value, or the text "N/A".\<close>

datatype 'a shown = NA | Val 'a

text \<open>Line 165:
  \<open>filtered_df['publish_year'].mode().iloc[0] if not filtered_df.empty else "N/A"\<close>.\<close>

definition most_active_year :: "paper list \<Rightarrow> py_error + int shown" where
  "most_active_year filtered_df =
     (if filtered_df \<noteq> []
      then (case iloc0 (series_mode (map publish_year filtered_df)) of
              Inl e \<Rightarrow> Inl e
            | Inr y \<Rightarrow> Inr (Val y))
      else Inr NA)"

subsection \<open>Publications by year (line 197)\<close>

text \<open>
  \<open>Series.value_counts()\<close>: one entry per distinct non-null value with the number of
  its occurrences, most frequent first (the sort is stable on the order of first
  appearance). \<open>sort_index()\<close> orders the entries by key.
\<close>

definition value_counts :: "'a option list \<Rightarrow> ('a \<times> nat) list" where
  "value_counts col =
     (let vals = dropna col
      in sort_key (\<lambda>p. - int (snd p)) (map (\<lambda>v. (v, count_list vals v)) (unique vals)))"

definition sort_index :: "('a::linorder \<times> nat) list \<Rightarrow> ('a \<times> nat) list" where
  "sort_index s = sort_key fst s"

definition yearly_counts :: "paper list \<Rightarrow> (int \<times> nat) list" where
  "yearly_counts filtered_df = sort_index (value_counts (map publish_year filtered_df))"

subsection \<open>Search (lines 295-299)\<close>

text \<open>
  \<open>Series.str.contains(pat, case=False, na=False)\<close> is called without \<open>regex=False\<close>,
  so pandas compiles \<open>pat\<close> as a regular expression with \<open>re.IGNORECASE\<close> and keeps the
  cells where \<open>re.search\<close> finds a match; a null cell gives \<open>False\<close>.

  Python's regular expressions are modelled on a fragment of the pattern syntax:
  a pattern of ordinary characters and dots compiles to a sequence of atoms, a dot
  matching every character but a newline; a pattern of ordinary characters, dots and at
  least one opening parenthesis does not compile (re.error: missing parenthesis). For any
  other pattern \<open>re_compile\<close> is \<open>None\<close>: it is outside the fragment. Case is folded on
  the ASCII letters only (Python folds the other letters too).
\<close>

definition re_special :: "char \<Rightarrow> bool" where
  "re_special c = (c \<in> set (''.^$*+?{}[]|()'' @ [CHR 0x5C]))"

definition ascii_lower :: "char \<Rightarrow> char" where
  "ascii_lower c =
     (let n = (of_char c :: nat) in if 65 \<le> n \<and> n \<le> 90 then char_of (n + 32) else c)"

datatype atom = Lit char | AnyChar

definition in_fragment :: "char \<Rightarrow> bool" where
  "in_fragment c = (if re_special c then c = CHR ''.'' \<or> c = CHR ''('' else True)"

definition re_compile :: "string \<Rightarrow> (py_error + atom list) option" where
  "re_compile pat =
     (if list_all in_fragment pat
      then (if CHR ''('' \<in> set pat then Some (Inl ReError)
            else Some (Inr (map (\<lambda>c. if c = CHR ''.'' then AnyChar else Lit c) pat)))
      else None)"

fun atom_matches :: "atom \<Rightarrow> char \<Rightarrow> bool" where
  "atom_matches (Lit a) c = (ascii_lower a = ascii_lower c)"
| "atom_matches AnyChar c = (c \<noteq> CHR 0x0A)"

fun match_here :: "atom list \<Rightarrow> string \<Rightarrow> bool" where
  "match_here [] s = True"
| "match_here (a # as) [] = False"
| "match_here (a # as) (c # cs) = (atom_matches a c \<and> match_here as cs)"

fun re_search :: "atom list \<Rightarrow> string \<Rightarrow> bool" where
  "re_search p [] = match_here p []"
| "re_search p (c # cs) = (match_here p (c # cs) \<or> re_search p cs)"

text \<open>One cell of \<open>str.contains\<close> for a compiled pattern; \<open>na=False\<close>. The title
  column is taken to hold a string in some row of the table (when every title is empty
  the column has dtype float64 and the accessor raises AttributeError).\<close>

definition contains :: "atom list \<Rightarrow> string option \<Rightarrow> bool" where
  "contains p cell = (case cell of None \<Rightarrow> False | Some s \<Rightarrow> re_search p s)"

text \<open>Lines 297-299: the rows whose title or abstract matches. The script reaches
  these lines when the search term is not empty (\<open>if search_term:\<close>).\<close>

definition search_results :: "string \<Rightarrow> paper list \<Rightarrow> (py_error + paper list) option" where
  "search_results search_term filtered_df =
     (case re_compile search_term of
        None \<Rightarrow> None
      | Some (Inl e) \<Rightarrow> Some (Inl e)
      | Some (Inr p) \<Rightarrow>
          Some (Inr (filter (\<lambda>r. contains p (title r) \<or> contains p (Some (abstract r)))
                       filtered_df)))"

text \<open>The claim's reading of the search: the term occurs in the text, ignoring case.\<close>

definition occurs_ci :: "string \<Rightarrow> string \<Rightarrow> bool" where
  "occurs_ci t s = sublist (map ascii_lower t) (map ascii_lower s)"

definition term_in_field :: "string \<Rightarrow> string option \<Rightarrow> bool" where
  "term_in_field t cell = (case cell of None \<Rightarrow> False | Some s \<Rightarrow> occurs_ci t s)"

subsection \<open>Sample papers (line 319)\<close>

text \<open>
  \<open>DataFrame.sample(n)\<close> draws \<open>n\<close> rows without replacement and raises ValueError when
  \<open>n\<close> exceeds the number of rows. The random draw is a parameter: \<open>perm\<close> is the
  permutation of the row positions that the generator produces, and the sample is its
  first \<open>n\<close> positions.
\<close>

definition df_sample :: "nat list \<Rightarrow> nat \<Rightarrow> 'a list \<Rightarrow> py_error + 'a list" where
  "df_sample perm n df =
     (if length df < n then Inl ValueError else Inr (map (\<lambda>i. df ! i) (take n perm)))"

text \<open>Line 319, \<open>filtered_df.sample(min(5, len(filtered_df)))\<close>, with the literal 5
  as the parameter \<open>n\<close>.\<close>

definition sample_rows :: "nat \<Rightarrow> nat list \<Rightarrow> 'a list \<Rightarrow> py_error + 'a list" where
  "sample_rows n perm filtered_df = df_sample perm (min n (length filtered_df)) filtered_df"

definition sample_papers :: "nat list \<Rightarrow> paper list \<Rightarrow> py_error + paper list" where
  "sample_papers perm filtered_df = sample_rows 5 perm filtered_df"

subsection \<open>The script (lines 64-111)\<close>

record selections =
  selected_years :: "int list"
  selected_journals :: "string list"
  selected_sources :: "string option list"

text \<open>
  \<open>main\<close> up to line 111: an exception of \<open>load_data\<close> leaves \<open>main\<close> too; \<open>main\<close>
  returns at once when \<open>load_data\<close> gave \<open>None\<close>; otherwise it filters the table, and
  the tabs (lines 113-331, modelled by the definitions above) work on the filtered table.
\<close>

datatype page = NoDashboard | Dashboard "paper list"

definition main ::
  "(string \<Rightarrow> timestamp option) \<Rightarrow> raw_paper list option \<Rightarrow> selections \<Rightarrow> app_state
     \<Rightarrow> (py_error + page) \<times> app_state" where
  "main parse file sel s =
     (case load_data parse file s of
        (Inl e, s') \<Rightarrow> (Inl e, s')
      | (Inr None, s') \<Rightarrow> (Inr NoDashboard, s')
      | (Inr (Some df), s') \<Rightarrow>
          (Inr (Dashboard (apply_filters df (selected_years sel) (selected_journals sel)
                             (selected_sources sel))), s'))"

subsection \<open>Example rows\<close>

text \<open>The three-row table of the specification's scenario, used to evaluate the
  definitions, and one row whose date could not be parsed.\<close>

definition mk_paper ::
  "int option \<Rightarrow> string \<Rightarrow> string \<Rightarrow> string \<Rightarrow> string option \<Rightarrow> bool \<Rightarrow> paper" where
  "mk_paper y j src t a ft =
     \<lparr> title = Some t, authors = Some ''A, B'', journal = j, source_x = Some src,
       publish_time = map_option (\<lambda>y. \<lparr>year = y, month = 1, day = 1\<rparr>) y,
       publish_year = y, publish_month = map_option (\<lambda>y. 1) y,
       abstract = fillna ''No abstract available'' a, doi = ''No DOI available'',
       has_full_text = ft, author_count = Some 2,
       abstract_length = length (fillna ''No abstract available'' a) \<rparr>"

definition row_A :: paper where
  "row_A = mk_paper (Some 2020) ''J1'' ''S1'' ''covid vaccine trial'' None True"

definition row_B :: paper where
  "row_B = mk_paper (Some 2021) ''J2'' ''S2'' ''unrelated topic'' (Some ''vaccine efficacy study'') False"

definition row_C :: paper where
  "row_C = mk_paper (Some 2020) ''J1'' ''S1'' ''other'' (Some ''other'') True"

definition row_undated :: paper where
  "row_undated = mk_paper None ''J1'' ''S1'' ''undated'' None False"

text \<open>Two rows of a CSV file, the second with a date that is not one, and a parser
  that reads the first date only.\<close>

definition raw_dated :: raw_paper where
  "raw_dated = \<lparr> raw_title = Some ''covid vaccine trial'', raw_authors = Some ''A, B'',
       raw_journal = Some ''J1'', raw_source_x = Some ''S1'',
       raw_publish_time = Some ''2020-03-01'', raw_abstract = None, raw_doi = None,
       raw_has_full_text = True \<rparr>"

definition raw_undated :: raw_paper where
  "raw_undated = \<lparr> raw_title = Some ''other'', raw_authors = None,
       raw_journal = None, raw_source_x = Some ''S2'',
       raw_publish_time = Some ''in press'', raw_abstract = Some ''other'', raw_doi = None,
       raw_has_full_text = False \<rparr>"

definition example_parse :: "string \<Rightarrow> timestamp option" where
  "example_parse t =
     (if t = ''2020-03-01'' then Some \<lparr>year = 2020, month = 3, day = 1\<rparr> else None)"

definition state0 :: app_state where
  "state0 = \<lparr> shown_errors = [], csv_reads = 0 \<rparr>"

subsection \<open>Facts about the column operations\<close>

lemma set_dropna: "set (dropna cs) = {v. Some v \<in> set cs}"
  by (induction cs rule: dropna.induct) auto

lemma length_dropna: "length (dropna cs) = length (filter (\<lambda>c. c \<noteq> None) cs)"
  by (induction cs rule: dropna.induct) auto

lemma set_unique: "set (unique xs) = set xs"
  by (induction xs rule: unique.induct) auto

lemma distinct_unique: "distinct (unique xs)"
  by (induction xs rule: unique.induct) (auto simp: set_unique)

lemma apply_filters_filter:
  "apply_filters df ys js ss =
     filter (\<lambda>r. (ys = [] \<or> publish_year r \<in> Some ` set ys) \<and>
                 (js = [] \<or> journal r \<in> set js) \<and>
                 (ss = [] \<or> source_x r \<in> set ss)) df"
  by (auto simp: apply_filters_def isin_def Let_def intro: filter_cong)

lemma filter_positions:
  "filter P xs = map (\<lambda>i. xs ! i) (filter (\<lambda>i. P (xs ! i)) [0..<length xs])"
proof -
  have "map (\<lambda>i. xs ! i) (filter (\<lambda>i. P (xs ! i)) [0..<length xs])
        = filter P (map (\<lambda>i. xs ! i) [0..<length xs])"
    by (simp add: filter_map comp_def)
  then show ?thesis by (simp add: map_nth)
qed

lemma set_available_years: "set (available_years df) = {y. Some y \<in> publish_year ` set df}"
  by (auto simp: available_years_def set_unique set_dropna)

lemma sum_counts_unique: "sum_list (map (count_list xs) (unique xs)) = length xs"
proof -
  have "sum_list (map (count_list xs) (unique xs)) = sum (count_list xs) (set (unique xs))"
    by (simp add: sum_list_distinct_conv_sum_set distinct_unique)
  also have "\<dots> = length xs"
    by (simp add: set_unique sum_count_set)
  finally show ?thesis .
qed

lemma map_fst_value_counts_mset:
  "mset (map fst (value_counts col)) = mset (unique (dropna col))"
  by (simp add: value_counts_def Let_def multiset.map_comp comp_def)

lemma count_list_years:
  "count_list (dropna (map publish_year df)) y
     = length (filter (\<lambda>r. publish_year r = Some y) df)"
proof (induction df)
  case Nil
  then show ?case by simp
next
  case (Cons r df)
  then show ?case by (cases "publish_year r") auto
qed

subsection \<open>Facts about the mode\<close>

lemma foldr_max_upper: "x \<in> set xs \<Longrightarrow> x \<le> foldr max xs (0::nat)"
  by (induction xs) auto

lemma foldr_max_mem: "xs \<noteq> [] \<Longrightarrow> foldr max xs (0::nat) \<in> set xs"
proof (induction xs)
  case Nil
  then show ?case by simp
next
  case (Cons a xs)
  show ?case
  proof (cases "xs = []")
    case True
    then show ?thesis by simp
  next
    case False
    with Cons.IH show ?thesis by (auto simp: max_def)
  qed
qed

lemma sort_Cons_least:
  assumes "sort xs = y # ys"
  shows "y \<in> set xs \<and> (\<forall>z \<in> set xs. y \<le> z)"
proof -
  have s: "sorted (y # ys)" using assms sorted_sort [of xs] by simp
  have e: "set xs = set (y # ys)" using assms set_sort [of "\<lambda>x. x" xs] by simp
  show ?thesis using s e by auto
qed

text \<open>When some cell is not null, the mode is not empty, and its first entry is the
  least of the values that occur most often.\<close>

lemma series_mode_nonempty:
  assumes "dropna col \<noteq> []"
  shows "\<exists>y ys. series_mode col = y # ys
           \<and> y \<in> set (dropna col)
           \<and> (\<forall>z. count_list (dropna col) z \<le> count_list (dropna col) y)
           \<and> (\<forall>z. count_list (dropna col) z = count_list (dropna col) y \<longrightarrow> y \<le> z)"
proof -
  let ?vals = "dropna col"
  let ?top = "foldr max (map (count_list ?vals) ?vals) 0"
  let ?ms = "filter (\<lambda>v. count_list ?vals v = ?top) (unique ?vals)"
  have "?top \<in> set (map (count_list ?vals) ?vals)"
    using assms by (intro foldr_max_mem) simp
  then obtain x where x: "x \<in> set ?vals" "count_list ?vals x = ?top" by auto
  have upper: "count_list ?vals z \<le> ?top" for z
  proof (cases "z \<in> set ?vals")
    case True
    then show ?thesis by (intro foldr_max_upper) simp
  next
    case False
    then show ?thesis by (simp add: count_list_0_iff)
  qed
  have "x \<in> set ?ms" using x by (simp add: set_unique)
  then have "sort ?ms \<noteq> []" by (metis empty_iff list.set(1) set_sort)
  then obtain y ys where y: "sort ?ms = y # ys" by (cases "sort ?ms") auto
  from sort_Cons_least [OF y]
  have ymem: "y \<in> set ?ms" and least: "\<forall>z \<in> set ?ms. y \<le> z" by auto
  have ytop: "count_list ?vals y = ?top" and yin: "y \<in> set ?vals"
    using ymem by (auto simp: set_unique)
  have sm: "series_mode col = y # ys" using y by (simp add: series_mode_def Let_def)
  have "y \<le> z" if "count_list ?vals z = count_list ?vals y" for z
  proof -
    have "count_list ?vals z > 0" using that ytop yin
      by (metis count_list_0_iff gr0I)
    then have "z \<in> set ?vals" by (metis count_list_0_iff less_numeral_extra(3))
    then have "z \<in> set ?ms" using that ytop by (simp add: set_unique)
    then show ?thesis using least by blast
  qed
  then show ?thesis using sm yin upper ytop by auto
qed

text \<open>
  On a view with at least one dated row, line 165 shows a year of the view that no other
  year outnumbers, the least of those with that count.
\<close>

lemma most_active_year_mode:
  assumes "\<exists>r \<in> set df. publish_year r \<noteq> None"
  shows "\<exists>y. most_active_year df = Inr (Val y)
           \<and> Some y \<in> publish_year ` set df
           \<and> (\<forall>z. length (filter (\<lambda>r. publish_year r = Some z) df)
                     \<le> length (filter (\<lambda>r. publish_year r = Some y) df))
           \<and> (\<forall>z. length (filter (\<lambda>r. publish_year r = Some z) df)
                     = length (filter (\<lambda>r. publish_year r = Some y) df) \<longrightarrow> y \<le> z)"
proof -
  let ?col = "map publish_year df"
  from assms obtain r v where "r \<in> set df" "publish_year r = Some v" by auto
  then have "v \<in> set (dropna ?col)" by (force simp: set_dropna)
  then have ne: "dropna ?col \<noteq> []" by auto
  from series_mode_nonempty [OF ne] obtain y ys where
    sm: "series_mode ?col = y # ys" and yin: "y \<in> set (dropna ?col)"
    and up: "\<forall>z. count_list (dropna ?col) z \<le> count_list (dropna ?col) y"
    and least: "\<forall>z. count_list (dropna ?col) z = count_list (dropna ?col) y \<longrightarrow> y \<le> z"
    by blast
  have dfne: "df \<noteq> []" using assms by auto
  have "most_active_year df = Inr (Val y)"
    using sm dfne by (simp add: most_active_year_def iloc0_def)
  moreover have "Some y \<in> publish_year ` set df" using yin by (simp add: set_dropna)
  ultimately show ?thesis using up least by (auto simp: count_list_years)
qed

subsection \<open>Facts about the search\<close>

lemma match_here_Lit:
  "match_here (map Lit t) s = prefix (map ascii_lower t) (map ascii_lower s)"
proof (induction t arbitrary: s)
  case Nil
  then show ?case by simp
next
  case (Cons a t)
  then show ?case by (cases s) auto
qed

lemma re_search_Lit: "re_search (map Lit t) s = occurs_ci t s"
proof (induction s)
  case Nil
  then show ?case by (simp add: match_here_Lit occurs_ci_def)
next
  case (Cons c s)
  then show ?case
    using match_here_Lit [of t "c # s"]
    by (simp add: occurs_ci_def sublist_Cons_right)
qed

lemma re_compile_plain:
  assumes "list_all (\<lambda>c. \<not> re_special c) t"
  shows "re_compile t = Some (Inr (map Lit t))"
proof -
  have a: "\<forall>c \<in> set t. \<not> re_special c" using assms by (simp add: list_all_iff)
  have f: "list_all in_fragment t" using a by (simp add: list_all_iff in_fragment_def)
  have p: "CHR ''('' \<notin> set t" using a by (auto simp: re_special_def)
  have d: "CHR ''.'' \<notin> set t" using a by (auto simp: re_special_def)
  have "map (\<lambda>c. if c = CHR ''.'' then AnyChar else Lit c) t = map Lit t"
    using d by (intro map_cong) auto
  then show ?thesis using f p by (simp add: re_compile_def)
qed

text \<open>
  For a search term without any special character of the pattern syntax, the rows found
  are those whose title or abstract contains the term, ignoring case; a null title does
  not match.
\<close>

lemma search_results_plain:
  assumes "list_all (\<lambda>c. \<not> re_special c) t"
  shows "search_results t df =
           Some (Inr (filter (\<lambda>r. term_in_field t (title r)
                                   \<or> term_in_field t (Some (abstract r))) df))"
proof -
  have c: "contains (map Lit t) cell = term_in_field t cell" for cell
    by (cases cell) (simp_all add: contains_def term_in_field_def re_search_Lit)
  show ?thesis
    using re_compile_plain [OF assms] by (simp add: search_results_def c)
qed

lemma search_results_plain_example:
  "search_results ''vaccine'' [row_A, row_B, row_C] = Some (Inr [row_A, row_B])
   \<and> search_results ''VACCINE'' [row_A, row_B, row_C] = Some (Inr [row_A, row_B])"
  by code_simp

subsection \<open>Facts about the load\<close>

text \<open>
  When the file has no rows or has a row with an authors cell that is not empty, the load
  returns a table with as many rows as the file; a row whose \<open>publish_time\<close> is missing or
  cannot be parsed is kept, without date, year and month, its other fields as they were.
\<close>

lemma load_data_keeps_undated_row:
  assumes "has_str_accessor (map raw_authors rows)"
    and "i < length rows"
    and "raw_publish_time (rows ! i) = None
         \<or> (\<exists>t. raw_publish_time (rows ! i) = Some t \<and> parse t = None)"
  shows "\<exists>df. fst (load_data parse (Some rows) s) = Inr (Some df)
           \<and> length df = length rows
           \<and> publish_time (df ! i) = None
           \<and> publish_year (df ! i) = None
           \<and> publish_month (df ! i) = None
           \<and> title (df ! i) = raw_title (rows ! i)
           \<and> authors (df ! i) = raw_authors (rows ! i)
           \<and> source_x (df ! i) = raw_source_x (rows ! i)
           \<and> has_full_text (df ! i) = raw_has_full_text (rows ! i)"
proof -
  have t: "to_datetime parse (raw_publish_time (rows ! i)) = None"
    using assms(3) by (auto simp: to_datetime_def)
  show ?thesis
    using assms(1,2) t by (simp add: load_data_def read_csv_def clean_def Let_def)
qed

lemma load_data_keeps_undated_row_example:
  "\<exists>df. fst (load_data example_parse (Some [raw_dated, raw_undated]) state0) = Inr (Some df)
         \<and> length df = 2
         \<and> publish_year (df ! 0) = Some 2020
         \<and> publish_time (df ! 1) = None
         \<and> publish_year (df ! 1) = None
         \<and> publish_month (df ! 1) = None
         \<and> title (df ! 1) = Some ''other''"
  by (simp add: load_data_def read_csv_def clean_def Let_def has_str_accessor_def
      to_datetime_def example_parse_def raw_dated_def raw_undated_def)

section \<open>The claims\<close>

subsection \<open>Filters\<close>

text \<open>
  C2. When the year, journal and source selections are all empty, the filters return the
  table as it is: the same rows in the same order.
\<close>

theorem apply_filters_identity: "apply_filters df [] [] [] = df"
  by (simp add: apply_filters_def)

text \<open>
  C3. For all selections, the filtered table is exactly the rows of the table that
  satisfy every non-empty selection (year among the selected years, journal among the
  selected journals, source among the selected sources), in the table's order: every row
  kept satisfies each of these constraints, and each position of the table whose row
  satisfies them all is kept once, positions ascending. With three non-empty selections
  the constraints are all three memberships.
\<close>

theorem apply_filters_sound_complete:
  "apply_filters df ys js ss =
     filter (\<lambda>r. (ys = [] \<or> publish_year r \<in> Some ` set ys)
                 \<and> (js = [] \<or> journal r \<in> set js)
                 \<and> (ss = [] \<or> source_x r \<in> set ss)) df
   \<and> apply_filters df ys js ss =
       map (\<lambda>i. df ! i)
         (filter (\<lambda>i. (ys = [] \<or> publish_year (df ! i) \<in> Some ` set ys)
                       \<and> (js = [] \<or> journal (df ! i) \<in> set js)
                       \<and> (ss = [] \<or> source_x (df ! i) \<in> set ss)) [0..<length df])"
proof -
  let ?keep = "\<lambda>r. (ys = [] \<or> publish_year r \<in> Some ` set ys)
                 \<and> (js = [] \<or> journal r \<in> set js)
                 \<and> (ss = [] \<or> source_x r \<in> set ss)"
  have eq: "apply_filters df ys js ss = filter ?keep df"
    by (rule apply_filters_filter)
  have pos: "filter ?keep df
               = map (\<lambda>i. df ! i) (filter (\<lambda>i. ?keep (df ! i)) [0..<length df])"
    by (rule filter_positions)
  show ?thesis using eq pos by simp
qed

theorem apply_filters_sound_complete_witness:
  "apply_filters [row_A, row_B, row_C] [2020] [''J1''] [Some ''S1''] = [row_A, row_C]
   \<and> apply_filters [row_A, row_B, row_C] [2020, 2021] [] [Some ''S2''] = [row_B]
   \<and> apply_filters [row_A, row_B, row_C] [] [''J2''] [Some ''S1'', Some ''S2''] = [row_B]
   \<and> apply_filters [row_A, row_B, row_C] [2021] [''J1''] [] = []"
  using apply_filters_sound_complete [of "[row_A, row_B, row_C]" "[2020]" "[''J1'']" "[Some ''S1'']"]
    apply_filters_sound_complete [of "[row_A, row_B, row_C]" "[2020, 2021]" "[]" "[Some ''S2'']"]
    apply_filters_sound_complete [of "[row_A, row_B, row_C]" "[]" "[''J2'']" "[Some ''S1'', Some ''S2'']"]
    apply_filters_sound_complete [of "[row_A, row_B, row_C]" "[2021]" "[''J1'']" "[]"]
  by (simp add: row_A_def row_B_def row_C_def mk_paper_def)

text \<open>
  C10. Whenever the year selection is not empty, no row without a year is in the filtered
  table. In particular the sidebar's defaults (every available year, no journal, every
  source) keep exactly the rows that have a year, where the empty year selection keeps all.
\<close>

theorem year_selection_drops_undated:
  "(ys \<noteq> [] \<longrightarrow> (\<forall>r \<in> set (apply_filters df ys js ss). publish_year r \<noteq> None))
   \<and> (available_years df \<noteq> [] \<longrightarrow>
        apply_filters df (available_years df) [] (sources df)
          = filter (\<lambda>r. publish_year r \<noteq> None) df)"
proof (intro conjI impI)
  assume "ys \<noteq> []"
  then show "\<forall>r \<in> set (apply_filters df ys js ss). publish_year r \<noteq> None"
    by (auto simp: apply_filters_filter)
next
  assume a: "available_years df \<noteq> []"
  have "apply_filters df (available_years df) [] (sources df)
          = filter (\<lambda>r. publish_year r \<in> Some ` set (available_years df)
                        \<and> (sources df = [] \<or> source_x r \<in> set (sources df))) df"
    using a by (simp add: apply_filters_filter)
  also have "\<dots> = filter (\<lambda>r. publish_year r \<noteq> None) df"
    by (rule filter_cong) (force simp: set_available_years sources_def set_unique)+
  finally show "apply_filters df (available_years df) [] (sources df)
          = filter (\<lambda>r. publish_year r \<noteq> None) df" .
qed

theorem year_selection_drops_undated_witness:
  "available_years [row_A, row_undated] = [2020]
   \<and> apply_filters [row_A, row_undated] (available_years [row_A, row_undated]) []
        (sources [row_A, row_undated]) = [row_A]
   \<and> row_undated \<notin> set (apply_filters [row_A, row_undated] [2020] [] [])
   \<and> apply_filters [row_A, row_undated] [] [] [] = [row_A, row_undated]"
proof -
  have y: "available_years [row_A, row_undated] = [2020]"
    by (simp add: available_years_def row_A_def row_undated_def mk_paper_def)
  have n: "publish_year row_undated = None" "publish_year row_A = Some 2020"
    by (simp_all add: row_A_def row_undated_def mk_paper_def)
  show ?thesis
    using year_selection_drops_undated [of "[2020]" "[row_A, row_undated]" "[]" "[]"]
      year_selection_drops_undated [of "[]" "[row_A, row_undated]" "[]" "[]"] y n
    by (auto simp: apply_filters_def isin_def)
qed

subsection \<open>Publications by year\<close>

text \<open>
  C5. The yearly series is sorted ascending by year and no year occurs twice; its years
  are the years of the dated rows of the view, so rows without a year are left out; the
  count of each year is the number of rows of the view with that year; and the counts add
  up to the number of dated rows.
\<close>

theorem yearly_counts_sorted_distinct_total:
  "sorted (map fst (yearly_counts df))
   \<and> distinct (map fst (yearly_counts df))
   \<and> set (map fst (yearly_counts df)) = {y. Some y \<in> publish_year ` set df}
   \<and> (\<forall>(y, c) \<in> set (yearly_counts df).
         c = length (filter (\<lambda>r. publish_year r = Some y) df))
   \<and> sum_list (map snd (yearly_counts df))
       = length (filter (\<lambda>r. publish_year r \<noteq> None) df)"
proof (intro conjI)
  let ?col = "map publish_year df"
  have m: "mset (map fst (yearly_counts df)) = mset (unique (dropna ?col))"
    unfolding yearly_counts_def sort_index_def
    using map_fst_value_counts_mset [of ?col] by simp
  show "sorted (map fst (yearly_counts df))"
    by (simp add: yearly_counts_def sort_index_def)
  show "distinct (map fst (yearly_counts df))"
    using m distinct_unique [of "dropna ?col"] by (metis mset_eq_imp_distinct_iff)
  have "set (map fst (yearly_counts df)) = set (unique (dropna ?col))"
    using m by (metis set_mset_mset)
  then show "set (map fst (yearly_counts df)) = {y. Some y \<in> publish_year ` set df}"
    by (simp add: set_unique set_dropna)
  have "set (yearly_counts df)
          = (\<lambda>v. (v, count_list (dropna ?col) v)) ` set (unique (dropna ?col))"
    by (simp add: yearly_counts_def sort_index_def value_counts_def Let_def)
  then show "\<forall>(y, c) \<in> set (yearly_counts df).
         c = length (filter (\<lambda>r. publish_year r = Some y) df)"
    by (auto simp: count_list_years)
  have "mset (map snd (yearly_counts df))
          = mset (map (count_list (dropna ?col)) (unique (dropna ?col)))"
    by (simp add: yearly_counts_def sort_index_def value_counts_def Let_def
        multiset.map_comp comp_def)
  then have "sum_list (map snd (yearly_counts df))
          = sum_list (map (count_list (dropna ?col)) (unique (dropna ?col)))"
    by (metis sum_mset_sum_list)
  also have "\<dots> = length (dropna ?col)" by (rule sum_counts_unique)
  also have "\<dots> = length (filter (\<lambda>r. publish_year r \<noteq> None) df)"
    by (simp add: length_dropna filter_map comp_def)
  finally show "sum_list (map snd (yearly_counts df))
       = length (filter (\<lambda>r. publish_year r \<noteq> None) df)" .
qed

theorem yearly_counts_sorted_distinct_total_witness:
  "yearly_counts [row_B, row_A, row_undated, row_C] = [(2020, 2), (2021, 1)]
   \<and> (2020, 2) \<in> set (yearly_counts [row_B, row_A, row_undated, row_C])
   \<and> length (filter (\<lambda>r. publish_year r = Some 2020) [row_B, row_A, row_undated, row_C]) = 2"
proof -
  have v: "yearly_counts [row_B, row_A, row_undated, row_C] = [(2020, 2), (2021, 1)]"
    by (simp add: yearly_counts_def sort_index_def value_counts_def
        row_A_def row_B_def row_C_def row_undated_def mk_paper_def)
  show ?thesis
    using yearly_counts_sorted_distinct_total [of "[row_B, row_A, row_undated, row_C]"] v
    by auto
qed

subsection \<open>Loading\<close>

text \<open>
  C6. When the file does not exist, \<open>load_data\<close> reads once, shows the error message
  and returns \<open>None\<close>, which is not what it returns for a file without rows (an empty
  table); \<open>main\<close> then stops without a dashboard, after that single read.
\<close>

theorem load_data_not_found:
  "load_data parse None s
     = (Inr None, s\<lparr>csv_reads := Suc (csv_reads s),
                   shown_errors := shown_errors s @ [not_found_message]\<rparr>)
   \<and> fst (load_data parse (Some []) s) = Inr (Some [])
   \<and> main parse None sel s
     = (Inr NoDashboard, s\<lparr>csv_reads := Suc (csv_reads s),
                          shown_errors := shown_errors s @ [not_found_message]\<rparr>)"
  by (simp add: load_data_def read_csv_def main_def has_str_accessor_def)

text \<open>
  C7. The claim that the load succeeds for every row whose \<open>publish_time\<close> cannot be
  parsed fails: on the file of the one row \<open>raw_undated\<close>, whose date is not one and whose
  authors cell is empty, \<open>load_data\<close> raises AttributeError at line 56, and so does
  \<open>main\<close>: no table is returned and no message is shown.
\<close>

theorem load_data_authors_all_empty:
  "raw_publish_time raw_undated = Some ''in press''
   \<and> example_parse ''in press'' = None
   \<and> raw_authors raw_undated = None
   \<and> load_data example_parse (Some [raw_undated]) state0
       = (Inl AttributeError, state0\<lparr>csv_reads := Suc 0\<rparr>)
   \<and> main example_parse (Some [raw_undated]) sel state0
       = (Inl AttributeError, state0\<lparr>csv_reads := Suc 0\<rparr>)"
  by (simp add: load_data_def read_csv_def main_def has_str_accessor_def raw_undated_def
      example_parse_def state0_def)

subsection \<open>Sample papers\<close>

text \<open>
  C9. For every view, every \<open>n\<close> and every random draw, the sample is taken without an
  error and has exactly \<open>min n (length view)\<close> rows, all of them rows of the view; when
  \<open>n\<close> is not less than the number of rows it is all the rows of the view. The script
  takes \<open>n = 5\<close>.
\<close>

theorem sample_rows_size:
  assumes "mset perm = mset [0..<length df]"
  shows "(\<exists>rows. sample_rows n perm df = Inr rows
           \<and> length rows = min n (length df)
           \<and> mset rows \<subseteq># mset df
           \<and> (length df \<le> n \<longrightarrow> mset rows = mset df))
       \<and> (\<exists>rows. sample_papers perm df = Inr rows \<and> length rows = min 5 (length df))"
proof -
  have len: "length perm = length df"
    using assms by (metis length_upt mset_eq_length minus_nat.diff_0)
  have all: "mset (map (\<lambda>i. df ! i) perm) = mset df"
  proof -
    have "mset (map (\<lambda>i. df ! i) perm) = image_mset (\<lambda>i. df ! i) (mset [0..<length df])"
      using assms by simp
    also have "\<dots> = mset (map (\<lambda>i. df ! i) [0..<length df])" by simp
    also have "\<dots> = mset df" by (simp add: map_nth)
    finally show ?thesis .
  qed
  have general: "\<exists>rows. sample_rows k perm df = Inr rows
           \<and> length rows = min k (length df)
           \<and> mset rows \<subseteq># mset df
           \<and> (length df \<le> k \<longrightarrow> mset rows = mset df)" for k
  proof -
    let ?k = "min k (length df)"
    let ?rows = "map (\<lambda>i. df ! i) (take ?k perm)"
    have r: "sample_rows k perm df = Inr ?rows"
      by (simp add: sample_rows_def df_sample_def)
    have l: "length ?rows = ?k" using len by simp
    have "mset (take ?k perm) \<subseteq># mset perm"
      by (metis append_take_drop_id mset_append mset_subset_eq_add_left)
    then have "image_mset (\<lambda>i. df ! i) (mset (take ?k perm))
                 \<subseteq># image_mset (\<lambda>i. df ! i) (mset perm)"
      by (rule image_mset_subseteq_mono)
    then have sub: "mset ?rows \<subseteq># mset df" using all by simp
    have full: "mset ?rows = mset df" if "length df \<le> k"
      using that len all by simp
    show ?thesis using r l sub full by blast
  qed
  have "\<exists>rows. sample_papers perm df = Inr rows \<and> length rows = min 5 (length df)"
    using general [of 5] by (auto simp: sample_papers_def)
  then show ?thesis using general [of n] by blast
qed

theorem sample_rows_size_witness:
  "mset [2, 0, 1] = mset [0..<length [row_A, row_B, row_C]]
   \<and> sample_papers [2, 0, 1] [row_A, row_B, row_C] = Inr [row_C, row_A, row_B]
   \<and> (\<exists>rows. sample_rows 7 [2, 0, 1] [row_A, row_B, row_C] = Inr rows \<and> length rows = 3)
   \<and> (\<exists>rows. sample_rows 2 [2, 0, 1] [row_A, row_B, row_C] = Inr rows \<and> length rows = 2)
   \<and> sample_rows 0 [] ([] :: paper list) = Inr []
   \<and> df_sample [2, 0, 1] 5 [row_A, row_B, row_C] = Inl ValueError"
proof -
  have h: "mset [2, 0, 1] = mset [0..<length [row_A, row_B, row_C]]"
    by (simp add: upt_rec)
  have s: "sample_papers [2, 0, 1] [row_A, row_B, row_C] = Inr [row_C, row_A, row_B]"
    by (simp add: sample_papers_def sample_rows_def df_sample_def)
  have e: "sample_rows 0 [] ([] :: paper list) = Inr []"
    by (simp add: sample_rows_def df_sample_def)
  have v: "df_sample [2, 0, 1] 5 [row_A, row_B, row_C] = Inl ValueError"
    by (simp add: df_sample_def)
  show ?thesis
    using sample_rows_size [OF h, of 7] sample_rows_size [OF h, of 2] h s e v by auto
qed

subsection \<open>Overview metrics\<close>

text \<open>
  C1. The claim that the full-text percentage of an empty view is 0 or "not available"
  fails: on the view that the years 2020 and the journal J2 select from rows A and B,
  which is empty, line 143 gives nan, where line 187 has the guard and gives 0.
\<close>

theorem full_text_pct_empty_view:
  "apply_filters [row_A, row_B] [2020] [''J2''] [] = []
   \<and> full_text_pct (apply_filters [row_A, row_B] [2020] [''J2''] []) = NaN
   \<and> data_quality (apply_filters [row_A, row_B] [2020] [''J2''] []) = Fin 0"
  by (simp add: full_text_pct_def data_quality_def apply_filters_def isin_def
      row_A_def row_B_def mk_paper_def np_true_divide_def)

text \<open>
  C8. The claim that every non-empty view has a most active year fails: on the view of
  one row without a year, which is not empty, line 165 raises IndexError.
\<close>

theorem most_active_year_undated_view:
  "[row_undated] \<noteq> [] \<and> most_active_year [row_undated] = Inl IndexError"
  by (simp add: most_active_year_def series_mode_def iloc0_def row_undated_def mk_paper_def)

subsection \<open>Search\<close>

text \<open>
  C4. The claim that a row is found exactly when the term occurs in its title or its
  abstract fails, the term being read as a regular expression: the term \<open>.\<close> finds
  row C, which has no dot in its title or abstract, and the term \<open>(\<close> raises an
  error instead of giving a result.
\<close>

theorem search_term_is_a_pattern:
  "search_results ''.'' [row_C] = Some (Inr [row_C])
   \<and> \<not> term_in_field ''.'' (title row_C)
   \<and> \<not> term_in_field ''.'' (Some (abstract row_C))
   \<and> search_results ''('' [row_C] = Some (Inl ReError)"
  by (simp add: search_results_def re_compile_def in_fragment_def re_special_def contains_def
      term_in_field_def occurs_ci_def sublist_code ascii_lower_def row_C_def mk_paper_def)

end
